theory Spec2Isabelle
  imports Complex_Main
begin

section \<open>Data model of \<^verbatim>\<open>backend/server.py\<close>\<close>

text \<open>
  The enums of the source are datatypes, its pydantic models are records and the four
  MongoDB collections are lists of documents in the store's natural order. Field names
  are the source's, with a prefix per model (\<open>u_\<close>, \<open>p_\<close>, \<open>d_\<close>, \<open>o_\<close>,
  \<open>pc_\<close>, \<open>oc_\<close>) because several models share names such as \<open>id\<close> and \<open>is_active\<close>.
  Python's \<open>int\<close> is \<open>int\<close>. A Python \<open>float\<close> is modelled as a real number:
  rounding, infinities and NaN are outside the model. A \<open>datetime\<close> is a natural number
  (a timestamp), a free-form \<open>dict\<close> an association list.
\<close>

datatype UserRole = SUPPLIER | BUYER | LOGISTICS | ADMIN

datatype CoalAshType = FLY_ASH | BOTTOM_ASH | POND_ASH

datatype OrderStatus = PENDING | CONFIRMED | IN_TRANSIT | DELIVERED | CANCELLED

type_synonym datetime = nat

type_synonym dict = "(string \<times> string) list"

record User =
  u_id :: string
  u_email :: string
  u_company :: string
  u_contact_person :: string
  u_phone :: string
  u_role :: UserRole
  u_address :: string
  u_city :: string
  u_state :: string
  u_kyc_verified :: bool
  u_created_at :: datetime
  u_updated_at :: datetime

record CoalAshProduct =
  p_id :: string
  p_supplier_id :: string
  p_title :: string
  p_ash_type :: CoalAshType
  p_quantity_available :: int
  p_price_per_ton :: real
  p_location :: string
  p_city :: string
  p_state :: string
  p_quality_specs :: dict
  p_test_report_url :: "string option"
  p_description :: string
  p_is_active :: bool
  p_created_at :: datetime
  p_updated_at :: datetime

record ProductCreate =
  pc_title :: string
  pc_ash_type :: CoalAshType
  pc_quantity_available :: int
  pc_price_per_ton :: real
  pc_location :: string
  pc_city :: string
  pc_state :: string
  pc_quality_specs :: dict
  pc_test_report_url :: "string option"
  pc_description :: string

record DemandRequest =
  d_id :: string
  d_buyer_id :: string
  d_title :: string
  d_ash_type :: CoalAshType
  d_quantity_required :: int
  d_max_price_per_ton :: real
  d_delivery_location :: string
  d_delivery_city :: string
  d_delivery_state :: string
  d_required_by :: datetime
  d_quality_requirements :: dict
  d_description :: string
  d_is_active :: bool
  d_created_at :: datetime

record Order =
  o_id :: string
  o_buyer_id :: string
  o_supplier_id :: string
  o_product_id :: string
  o_demand_id :: "string option"
  o_quantity :: int
  o_agreed_price_per_ton :: real
  o_total_amount :: real
  o_delivery_address :: string
  o_status :: OrderStatus
  o_contract_terms :: "string option"
  o_created_at :: datetime
  o_updated_at :: datetime

record OrderCreate =
  oc_product_id :: string
  oc_quantity :: int
  oc_delivery_address :: string
  oc_contract_terms :: "string option"

text \<open>The database \<^verbatim>\<open>db\<close>: one list per collection, oldest document first.\<close>

record db =
  users :: "User list"
  products :: "CoalAshProduct list"
  demands :: "DemandRequest list"
  orders :: "Order list"

text \<open>
  What a request can raise: \<^verbatim>\<open>HTTPException(status_code, detail)\<close> from the endpoint
  itself, \<^verbatim>\<open>OverflowError\<close> from the driver when it is handed an integer that does
  not fit the store's 8 bytes, and a write error from the store when an update cannot be
  applied.
\<close>

datatype exception = HTTPException nat string | OverflowError | WriteError

definition Forbidden :: exception where
  "Forbidden = HTTPException 403 ''Only buyers can create orders''"

definition NotFound :: exception where
  "NotFound = HTTPException 404 ''Product not found''"

definition InsufficientInventory :: exception where
  "InsufficientInventory = HTTPException 400 ''Insufficient quantity available''"

section \<open>The document store\<close>

text \<open>
  \<^verbatim>\<open>find_one(filter)\<close> is the first document that satisfies the filter
  (\<^const>\<open>List.find\<close>), \<^verbatim>\<open>find(filter).to_list(n)\<close> the first \<open>n\<close> of those that
  do, \<^verbatim>\<open>count_documents\<close> their number, \<^verbatim>\<open>insert_one\<close> appends, and
  \<^verbatim>\<open>update_one\<close> changes the first document that satisfies the filter and no other.
  The store keeps an integer in 64 bits. The driver raises \<^verbatim>\<open>OverflowError\<close> on any
  other integer in a document or an update that it has to encode, before anything is
  written, and the store rejects an \<^verbatim>\<open>$inc\<close> whose result leaves the range. The
  endpoints check these where the source calls \<^verbatim>\<open>insert_one\<close> and
  \<^verbatim>\<open>update_one\<close>. Failures of the connection and the size limit of a document are
  outside the model.
\<close>

definition int64 :: "int \<Rightarrow> bool" where
  "int64 n \<longleftrightarrow> - (2 ^ 63) \<le> n \<and> n < 2 ^ 63"

definition find_to_list :: "('a \<Rightarrow> bool) \<Rightarrow> nat \<Rightarrow> 'a list \<Rightarrow> 'a list" where
  "find_to_list flt n coll = take n (filter flt coll)"

definition count_documents :: "('a \<Rightarrow> bool) \<Rightarrow> 'a list \<Rightarrow> nat" where
  "count_documents flt coll = length (filter flt coll)"

definition insert_one :: "'a \<Rightarrow> 'a list \<Rightarrow> 'a list" where
  "insert_one doc coll = coll @ [doc]"

fun update_one :: "('a \<Rightarrow> bool) \<Rightarrow> ('a \<Rightarrow> 'a) \<Rightarrow> 'a list \<Rightarrow> 'a list" where
  "update_one flt upd [] = []"
| "update_one flt upd (doc # coll) =
     (if flt doc then upd doc # coll else doc # update_one flt upd coll)"

text \<open>\<^verbatim>\<open>{"$inc": {"quantity_available": n}}\<close>\<close>

definition inc_quantity_available :: "int \<Rightarrow> CoalAshProduct \<Rightarrow> CoalAshProduct" where
  "inc_quantity_available n p = p\<lparr>p_quantity_available := p_quantity_available p + n\<rparr>"

section \<open>Product endpoint\<close>

text \<open>
  \<^verbatim>\<open>create_product(product_data, current_user)\<close>: a supplier's listing is stored as
  posted, active, with no check of its numbers; \<^verbatim>\<open>insert_one\<close> raises when
  \<open>quantity_available\<close> does not fit 64 bits. The \<^verbatim>\<open>uuid4\<close> and the clock are the
  parameters \<open>new_id\<close> and \<open>now\<close>.
\<close>

definition create_product ::
  "db \<Rightarrow> string \<Rightarrow> datetime \<Rightarrow> ProductCreate \<Rightarrow> User
     \<Rightarrow> (exception + CoalAshProduct) \<times> db" where
  "create_product s new_id now product_data current_user =
     (if u_role current_user \<noteq> SUPPLIER then
        (Inl (HTTPException 403 ''Only suppliers can create products''), s)
      else
        let product = \<lparr>
              p_id = new_id,
              p_supplier_id = u_id current_user,
              p_title = pc_title product_data,
              p_ash_type = pc_ash_type product_data,
              p_quantity_available = pc_quantity_available product_data,
              p_price_per_ton = pc_price_per_ton product_data,
              p_location = pc_location product_data,
              p_city = pc_city product_data,
              p_state = pc_state product_data,
              p_quality_specs = pc_quality_specs product_data,
              p_test_report_url = pc_test_report_url product_data,
              p_description = pc_description product_data,
              p_is_active = True,
              p_created_at = now,
              p_updated_at = now \<rparr>
        in if \<not> int64 (p_quantity_available product) then (Inl OverflowError, s)
           else (Inr product, s\<lparr>products := insert_one product (products s)\<rparr>))"

section \<open>Order endpoint\<close>

text \<open>
  \<^verbatim>\<open>create_order(order_data, current_user)\<close>. The result pairs what the request returns
  (the raised exception or the order) with the database after the request. After the
  inventory check the source writes twice. \<^verbatim>\<open>insert_one\<close> raises
  \<^verbatim>\<open>OverflowError\<close> when the quantity does not fit 64 bits, and nothing is written
  (for a quantity too large for a \<open>float\<close> the multiplication before it raises the same
  error). \<^verbatim>\<open>update_one\<close> raises it when the negated quantity does not fit, and
  fails when the new stock would not fit; by then the order is already recorded.
  The two defaults of \<^verbatim>\<open>Order\<close> that the source draws from the environment, the
  \<^verbatim>\<open>uuid4\<close> of \<open>id\<close> and the clock of \<open>created_at\<close> and \<open>updated_at\<close>, are the
  parameters \<open>new_id\<close> and \<open>now\<close>.
\<close>

definition create_order ::
  "db \<Rightarrow> string \<Rightarrow> datetime \<Rightarrow> OrderCreate \<Rightarrow> User \<Rightarrow> (exception + Order) \<times> db" where
  "create_order s new_id now order_data current_user =
     (if u_role current_user \<noteq> BUYER then
        (Inl (HTTPException 403 ''Only buyers can create orders''), s)
      else
        case List.find (\<lambda>p. p_id p = oc_product_id order_data) (products s) of
          None \<Rightarrow> (Inl (HTTPException 404 ''Product not found''), s)
        | Some product \<Rightarrow>
            if p_quantity_available product < oc_quantity order_data then
              (Inl (HTTPException 400 ''Insufficient quantity available''), s)
            else
              let order = \<lparr>
                    o_id = new_id,
                    o_buyer_id = u_id current_user,
                    o_supplier_id = p_supplier_id product,
                    o_product_id = oc_product_id order_data,
                    o_demand_id = None,
                    o_quantity = oc_quantity order_data,
                    o_agreed_price_per_ton = p_price_per_ton product,
                    o_total_amount = p_price_per_ton product * of_int (oc_quantity order_data),
                    o_delivery_address = oc_delivery_address order_data,
                    o_status = PENDING,
                    o_contract_terms = oc_contract_terms order_data,
                    o_created_at = now,
                    o_updated_at = now \<rparr>
              in
                if \<not> int64 (o_quantity order) then (Inl OverflowError, s)
                else
                  let s1 = s\<lparr>orders := insert_one order (orders s)\<rparr>
                  in
                    if \<not> int64 (- oc_quantity order_data) then (Inl OverflowError, s1)
                    else if \<not> int64 (p_quantity_available product + (- oc_quantity order_data))
                    then (Inl WriteError, s1)
                    else
                      (Inr order,
                       s1\<lparr>products :=
                            update_one (\<lambda>p. p_id p = oc_product_id order_data)
                              (inc_quantity_available (- oc_quantity order_data))
                              (products s1)\<rparr>))"

section \<open>Analytics endpoint\<close>

text \<open>
  The three dictionaries \<^verbatim>\<open>get_dashboard_analytics\<close> can return. A role that matches
  no branch reaches the end of the function, which returns Python's \<^verbatim>\<open>None\<close>.
\<close>

datatype dashboard =
    AdminDashboard (total_users: nat) (total_products: nat) (total_orders: nat)
      (total_demands: nat) (recent_orders: "Order list")
  | SupplierDashboard (my_products: nat) (my_orders: nat) (total_revenue: real)
      (recent_orders: "Order list")
  | BuyerDashboard (my_demands: nat) (my_orders: nat) (total_spent: real)
      (recent_orders: "Order list")

text \<open>
  \<^verbatim>\<open>aggregate([{"$match": m}, {"$group": {"_id": None, "total": {"$sum": "$total_amount"}}}]).to_list(1)\<close>:
  the pipeline yields one group when some document matches and none otherwise.
\<close>

definition aggregate_total :: "(Order \<Rightarrow> bool) \<Rightarrow> Order list \<Rightarrow> real list" where
  "aggregate_total m coll =
     (let matched = filter m coll
      in take 1 (if matched = [] then [] else [sum_list (map o_total_amount matched)]))"

text \<open>
  \<^verbatim>\<open>find(flt).sort("created_at", -1).limit(5).to_list(5)\<close>: newest first. The order of
  documents with equal \<open>created_at\<close> is the store's choice; the model keeps their
  natural order.
\<close>

definition recent :: "(Order \<Rightarrow> bool) \<Rightarrow> Order list \<Rightarrow> Order list" where
  "recent flt coll = take 5 (take 5 (sort_key (\<lambda>ord. - int (o_created_at ord)) (filter flt coll)))"

definition get_dashboard_analytics :: "db \<Rightarrow> User \<Rightarrow> dashboard option" where
  "get_dashboard_analytics s current_user =
     (if u_role current_user = ADMIN then
        Some (AdminDashboard
          (count_documents (\<lambda>_. True) (users s))
          (count_documents p_is_active (products s))
          (count_documents (\<lambda>_. True) (orders s))
          (count_documents d_is_active (demands s))
          (recent (\<lambda>_. True) (orders s)))
      else if u_role current_user = SUPPLIER then
        let my_products = count_documents (\<lambda>p. p_supplier_id p = u_id current_user) (products s);
            my_orders = count_documents (\<lambda>ord. o_supplier_id ord = u_id current_user) (orders s);
            total_revenue = aggregate_total (\<lambda>ord. o_supplier_id ord = u_id current_user) (orders s)
        in Some (SupplierDashboard my_products my_orders
             (case total_revenue of [] \<Rightarrow> 0 | t # _ \<Rightarrow> t)
             (recent (\<lambda>ord. o_supplier_id ord = u_id current_user) (orders s)))
      else if u_role current_user = BUYER then
        let my_demands = count_documents (\<lambda>d. d_buyer_id d = u_id current_user) (demands s);
            my_orders = count_documents (\<lambda>ord. o_buyer_id ord = u_id current_user) (orders s);
            total_spent = aggregate_total (\<lambda>ord. o_buyer_id ord = u_id current_user) (orders s)
        in Some (BuyerDashboard my_demands my_orders
             (case total_spent of [] \<Rightarrow> 0 | t # _ \<Rightarrow> t)
             (recent (\<lambda>ord. o_buyer_id ord = u_id current_user) (orders s)))
      else None)"

section \<open>Supply-demand matching\<close>

text \<open>One entry of \<^verbatim>\<open>suggestions\<close>: the anchor document and its matched counterparts.\<close>

datatype suggestion =
    DemandSuggestion DemandRequest "CoalAshProduct list"
  | ProductSuggestion CoalAshProduct "DemandRequest list"

text \<open>The filter of the inner query of the buyer branch, for the demand \<open>demand\<close>.\<close>

definition product_filter :: "DemandRequest \<Rightarrow> CoalAshProduct \<Rightarrow> bool" where
  "product_filter demand p \<longleftrightarrow>
     p_ash_type p = d_ash_type demand \<and>
     p_quantity_available p \<ge> d_quantity_required demand \<and>
     p_price_per_ton p \<le> d_max_price_per_ton demand \<and>
     p_is_active p = True"

text \<open>The filter of the inner query of the supplier branch, for the product \<open>product\<close>.\<close>

definition demand_filter :: "CoalAshProduct \<Rightarrow> DemandRequest \<Rightarrow> bool" where
  "demand_filter product d \<longleftrightarrow>
     d_ash_type d = p_ash_type product \<and>
     d_quantity_required d \<le> p_quantity_available product \<and>
     d_max_price_per_ton d \<ge> p_price_per_ton product \<and>
     d_is_active d = True"

definition matching_products :: "db \<Rightarrow> DemandRequest \<Rightarrow> CoalAshProduct list" where
  "matching_products s demand = find_to_list (product_filter demand) 10 (products s)"

definition matching_demands :: "db \<Rightarrow> CoalAshProduct \<Rightarrow> DemandRequest list" where
  "matching_demands s product = find_to_list (demand_filter product) 10 (demands s)"

text \<open>The two \<^verbatim>\<open>for\<close> loops: an anchor with no match adds nothing.\<close>

fun buyer_loop :: "db \<Rightarrow> DemandRequest list \<Rightarrow> suggestion list" where
  "buyer_loop s [] = []"
| "buyer_loop s (demand # rest) =
     (if matching_products s demand \<noteq> []
      then DemandSuggestion demand (matching_products s demand) # buyer_loop s rest
      else buyer_loop s rest)"

fun supplier_loop :: "db \<Rightarrow> CoalAshProduct list \<Rightarrow> suggestion list" where
  "supplier_loop s [] = []"
| "supplier_loop s (product # rest) =
     (if matching_demands s product \<noteq> []
      then ProductSuggestion product (matching_demands s product) # supplier_loop s rest
      else supplier_loop s rest)"

definition get_matching_suggestions :: "db \<Rightarrow> User \<Rightarrow> suggestion list" where
  "get_matching_suggestions s current_user =
     (if u_role current_user = BUYER then
        buyer_loop s
          (find_to_list (\<lambda>d. d_buyer_id d = u_id current_user \<and> d_is_active d = True) 1000
             (demands s))
      else if u_role current_user = SUPPLIER then
        supplier_loop s
          (find_to_list (\<lambda>p. p_supplier_id p = u_id current_user \<and> p_is_active p = True) 1000
             (products s))
      else [])"

text \<open>Reading a response: the counterparts listed with an anchor.\<close>

fun counterparts :: "suggestion \<Rightarrow> nat" where
  "counterparts (DemandSuggestion _ ps) = length ps"
| "counterparts (ProductSuggestion _ ds) = length ds"

fun matched_products_of :: "suggestion list \<Rightarrow> DemandRequest \<Rightarrow> CoalAshProduct list" where
  "matched_products_of [] demand = []"
| "matched_products_of (DemandSuggestion d ps # rest) demand =
     (if d = demand then ps @ matched_products_of rest demand
      else matched_products_of rest demand)"
| "matched_products_of (ProductSuggestion _ _ # rest) demand = matched_products_of rest demand"

fun matched_demands_of :: "suggestion list \<Rightarrow> CoalAshProduct \<Rightarrow> DemandRequest list" where
  "matched_demands_of [] product = []"
| "matched_demands_of (ProductSuggestion p ds # rest) product =
     (if p = product then ds @ matched_demands_of rest product
      else matched_demands_of rest product)"
| "matched_demands_of (DemandSuggestion _ _ # rest) product = matched_demands_of rest product"

section \<open>Sample data\<close>

text \<open>
  The scenario of the specification: a supplier's fly-ash product of 100 tons at 50 per
  ton, a buyer's demand for 80 tons at no more than 60 per ton, and a user with the
  logistics role.
\<close>

definition mk_user :: "string \<Rightarrow> UserRole \<Rightarrow> User" where
  "mk_user uid r = \<lparr>
     u_id = uid, u_email = uid @ ''@example.com'', u_company = ''AshLink'',
     u_contact_person = uid, u_phone = ''+91-9999999999'', u_role = r,
     u_address = ''1 Main Road'', u_city = ''Mumbai'', u_state = ''Maharashtra'',
     u_kyc_verified = False, u_created_at = 1, u_updated_at = 1 \<rparr>"

definition demo_supplier :: User where
  "demo_supplier = mk_user ''supplier-1'' SUPPLIER"

definition demo_buyer :: User where
  "demo_buyer = mk_user ''buyer-1'' BUYER"

definition demo_logistics :: User where
  "demo_logistics = mk_user ''carrier-1'' LOGISTICS"

definition mk_product :: "string \<Rightarrow> int \<Rightarrow> bool \<Rightarrow> CoalAshProduct" where
  "mk_product pid qty active = \<lparr>
     p_id = pid, p_supplier_id = ''supplier-1'', p_title = ''Fly ash'',
     p_ash_type = FLY_ASH, p_quantity_available = qty, p_price_per_ton = 50,
     p_location = ''Plant 1'', p_city = ''Nagpur'', p_state = ''Maharashtra'',
     p_quality_specs = [], p_test_report_url = None, p_description = ''Class F'',
     p_is_active = active, p_created_at = 2, p_updated_at = 2 \<rparr>"

text \<open>The posting that creates \<open>mk_product pid qty True\<close>.\<close>

definition mk_product_data :: "int \<Rightarrow> ProductCreate" where
  "mk_product_data qty = \<lparr>
     pc_title = ''Fly ash'', pc_ash_type = FLY_ASH, pc_quantity_available = qty,
     pc_price_per_ton = 50, pc_location = ''Plant 1'', pc_city = ''Nagpur'',
     pc_state = ''Maharashtra'', pc_quality_specs = [], pc_test_report_url = None,
     pc_description = ''Class F'' \<rparr>"

definition demo_product :: CoalAshProduct where
  "demo_product = mk_product ''product-1'' 100 True"

definition mk_demand :: "string \<Rightarrow> DemandRequest" where
  "mk_demand did = \<lparr>
     d_id = did, d_buyer_id = ''buyer-1'', d_title = ''Fly ash wanted'',
     d_ash_type = FLY_ASH, d_quantity_required = 80, d_max_price_per_ton = 60,
     d_delivery_location = ''Site 4'', d_delivery_city = ''Pune'',
     d_delivery_state = ''Maharashtra'', d_required_by = 90, d_quality_requirements = [],
     d_description = ''For cement'', d_is_active = True, d_created_at = 3 \<rparr>"

definition demo_demand :: DemandRequest where
  "demo_demand = mk_demand ''demand-1''"

definition demo_db :: db where
  "demo_db = \<lparr> users = [demo_supplier, demo_buyer, demo_logistics],
               products = [demo_product], demands = [demo_demand], orders = [] \<rparr>"

definition mk_order_data :: "int \<Rightarrow> OrderCreate" where
  "mk_order_data qty = \<lparr>
     oc_product_id = ''product-1'', oc_quantity = qty,
     oc_delivery_address = ''Site 4, Pune'', oc_contract_terms = None \<rparr>"

text \<open>The order that the buyer's request for \<open>qty\<close> tons of the sample product creates.\<close>

definition mk_order :: "int \<Rightarrow> Order" where
  "mk_order qty = \<lparr>
     o_id = ''order-1'', o_buyer_id = ''buyer-1'', o_supplier_id = ''supplier-1'',
     o_product_id = ''product-1'', o_demand_id = None, o_quantity = qty,
     o_agreed_price_per_ton = 50, o_total_amount = 50 * of_int qty,
     o_delivery_address = ''Site 4, Pune'', o_status = PENDING,
     o_contract_terms = None, o_created_at = 7, o_updated_at = 7 \<rparr>"

text \<open>The sample database with another stock level or activity flag of its product.\<close>

definition stock_db :: "int \<Rightarrow> bool \<Rightarrow> db" where
  "stock_db qty active = demo_db\<lparr>products := [mk_product ''product-1'' qty active]\<rparr>"

text \<open>Eleven demands that all match the sample product, and two orders on it.\<close>

definition crowd_ids :: "string list" where
  "crowd_ids = [''demand-01'', ''demand-02'', ''demand-03'', ''demand-04'', ''demand-05'',
     ''demand-06'', ''demand-07'', ''demand-08'', ''demand-09'', ''demand-10'', ''demand-11'']"

definition crowded_db :: db where
  "crowded_db = demo_db\<lparr>demands := map mk_demand crowd_ids\<rparr>"

definition orders_db :: db where
  "orders_db = demo_db\<lparr>orders := [mk_order 30, mk_order 20]\<rparr>"

lemmas demo_defs =
  mk_user_def demo_supplier_def demo_buyer_def demo_logistics_def mk_product_def
  demo_product_def mk_demand_def demo_demand_def demo_db_def mk_order_data_def

lemmas eval_defs =
  create_order_def demo_defs insert_one_def inc_quantity_available_def Let_def
  mk_order_def stock_db_def int64_def

section \<open>Facts about the store operations\<close>

lemma find_update_one:
  assumes "\<And>x. flt (upd x) = flt x"
  shows "List.find flt (update_one flt upd coll) = map_option upd (List.find flt coll)"
  using assms by (induction coll) auto

lemma p_id_inc [simp]: "p_id (inc_quantity_available n p) = p_id p"
  by (simp add: inc_quantity_available_def)

lemma find_products_after_inc:
  "List.find (\<lambda>p. p_id p = pid) (update_one (\<lambda>p. p_id p = pid) (inc_quantity_available n) coll)
     = map_option (inc_quantity_available n) (List.find (\<lambda>p. p_id p = pid) coll)"
  by (rule find_update_one) simp

text \<open>What a successful \<^const>\<open>create_order\<close> has checked, returned and written.\<close>

lemma create_order_Inr:
  assumes "create_order s new_id now order_data current_user = (Inr order, s')"
  obtains product where
    "u_role current_user = BUYER"
    "List.find (\<lambda>p. p_id p = oc_product_id order_data) (products s) = Some product"
    "oc_quantity order_data \<le> p_quantity_available product"
    "int64 (oc_quantity order_data)"
    "int64 (- oc_quantity order_data)"
    "int64 (p_quantity_available product - oc_quantity order_data)"
    "order = \<lparr>
       o_id = new_id,
       o_buyer_id = u_id current_user,
       o_supplier_id = p_supplier_id product,
       o_product_id = oc_product_id order_data,
       o_demand_id = None,
       o_quantity = oc_quantity order_data,
       o_agreed_price_per_ton = p_price_per_ton product,
       o_total_amount = p_price_per_ton product * of_int (oc_quantity order_data),
       o_delivery_address = oc_delivery_address order_data,
       o_status = PENDING,
       o_contract_terms = oc_contract_terms order_data,
       o_created_at = now,
       o_updated_at = now \<rparr>"
    "s' = s\<lparr>orders := orders s @ [order],
            products := update_one (\<lambda>p. p_id p = oc_product_id order_data)
                          (inc_quantity_available (- oc_quantity order_data)) (products s)\<rparr>"
  using assms
  by (auto simp: create_order_def Let_def insert_one_def split: if_splits option.splits)

lemma length_find_to_list: "length (find_to_list flt n coll) \<le> n"
  by (simp add: find_to_list_def)

lemma set_find_to_list: "x \<in> set (find_to_list flt n coll) \<Longrightarrow> x \<in> set coll \<and> flt x"
  by (auto simp: find_to_list_def dest: in_set_takeD)

lemma find_to_list_uncapped:
  "length (filter flt coll) \<le> n \<Longrightarrow> x \<in> set coll \<Longrightarrow> flt x \<Longrightarrow> x \<in> set (find_to_list flt n coll)"
  by (simp add: find_to_list_def)

text \<open>The group total that the dashboards read is the sum over the matching orders.\<close>

lemma aggregate_total_sum:
  "(case aggregate_total m coll of [] \<Rightarrow> 0 | t # _ \<Rightarrow> t)
     = sum_list (map o_total_amount (filter m coll))"
  by (simp add: aggregate_total_def Let_def)

section \<open>The sample data, evaluated\<close>

lemma demo_order_30:
  "create_order demo_db ''order-1'' 7 (mk_order_data 30) demo_buyer
     = (Inr (mk_order 30), (stock_db 70 True)\<lparr>orders := [mk_order 30]\<rparr>)"
  by (simp add: eval_defs)

lemma demo_buyer_suggestions:
  "get_matching_suggestions demo_db demo_buyer = [DemandSuggestion demo_demand [demo_product]]"
  by (simp add: get_matching_suggestions_def demo_defs
      find_to_list_def matching_products_def product_filter_def)

lemma crowded_supplier:
  "get_matching_suggestions crowded_db demo_supplier
     = [ProductSuggestion demo_product (map mk_demand (take 10 crowd_ids))]"
  by (simp add: get_matching_suggestions_def crowded_db_def crowd_ids_def demo_defs
      find_to_list_def matching_demands_def demand_filter_def)

section \<open>Order creation\<close>

text \<open>
  C1. When a buyer orders more of an existing product than its \<open>quantity_available\<close>,
  the request fails with \<^const>\<open>InsufficientInventory\<close> and the database after the
  request is the database before it: the product document is untouched and no order
  record is added.
\<close>

theorem create_order_insufficient:
  assumes "u_role current_user = BUYER"
    and "List.find (\<lambda>p. p_id p = oc_product_id order_data) (products s) = Some product"
    and "p_quantity_available product < oc_quantity order_data"
  shows "create_order s new_id now order_data current_user = (Inl InsufficientInventory, s)"
  using assms by (simp add: create_order_def InsufficientInventory_def)

theorem create_order_insufficient_witness:
  "u_role demo_buyer = BUYER
   \<and> List.find (\<lambda>p. p_id p = oc_product_id (mk_order_data 150)) (products demo_db)
       = Some demo_product
   \<and> p_quantity_available demo_product < oc_quantity (mk_order_data 150)
   \<and> create_order demo_db ''order-1'' 7 (mk_order_data 150) demo_buyer
       = (Inl InsufficientInventory, demo_db)"
proof -
  have role: "u_role demo_buyer = BUYER"
    by (simp add: demo_defs)
  have found: "List.find (\<lambda>p. p_id p = oc_product_id (mk_order_data 150)) (products demo_db)
                 = Some demo_product"
    by (simp add: demo_defs)
  have short: "p_quantity_available demo_product < oc_quantity (mk_order_data 150)"
    by (simp add: demo_defs)
  from create_order_insufficient [OF role found short, of "''order-1''" 7] role found short
  show ?thesis by simp
qed

text \<open>
  C2, as stated, fails: \<^const>\<open>create_order\<close> never reads \<open>is_active\<close>, so a buyer's
  order on an inactive product with enough stock succeeds, is recorded and decrements
  the stock.
\<close>

theorem create_order_inactive_counterexample:
  "\<not> p_is_active (mk_product ''product-1'' 100 False)
   \<and> List.find (\<lambda>p. p_id p = oc_product_id (mk_order_data 30)) (products (stock_db 100 False))
       = Some (mk_product ''product-1'' 100 False)
   \<and> create_order (stock_db 100 False) ''order-1'' 7 (mk_order_data 30) demo_buyer
       = (Inr (mk_order 30), (stock_db 70 False)\<lparr>orders := [mk_order 30]\<rparr>)"
  by (simp add: eval_defs)

text \<open>
  C2, amended. A request succeeds only when the caller's role is buyer, the referenced
  product exists and the requested quantity is at most its \<open>quantity_available\<close>; a
  request that violates one of these raises \<^const>\<open>Forbidden\<close>, \<^const>\<open>NotFound\<close> or
  \<^const>\<open>InsufficientInventory\<close> and leaves the database as it was, so no order is
  created.
\<close>

theorem create_order_succeeds_only_if:
  "(create_order s new_id now order_data current_user = (Inr order, s')
      \<longrightarrow> u_role current_user = BUYER
          \<and> (\<exists>product. List.find (\<lambda>p. p_id p = oc_product_id order_data) (products s)
                          = Some product
                \<and> oc_quantity order_data \<le> p_quantity_available product))
   \<and> (\<not> (u_role current_user = BUYER
          \<and> (\<exists>product. List.find (\<lambda>p. p_id p = oc_product_id order_data) (products s)
                          = Some product
                \<and> oc_quantity order_data \<le> p_quantity_available product))
      \<longrightarrow> create_order s new_id now order_data current_user = (Inl Forbidden, s)
          \<or> create_order s new_id now order_data current_user = (Inl NotFound, s)
          \<or> create_order s new_id now order_data current_user
               = (Inl InsufficientInventory, s))"
proof -
  have "u_role current_user = BUYER
          \<and> (\<exists>product. List.find (\<lambda>p. p_id p = oc_product_id order_data) (products s)
                          = Some product
                \<and> oc_quantity order_data \<le> p_quantity_available product)"
    if "create_order s new_id now order_data current_user = (Inr order, s')"
    using that by (elim create_order_Inr) simp
  moreover
  have "create_order s new_id now order_data current_user = (Inl Forbidden, s)
          \<or> create_order s new_id now order_data current_user = (Inl NotFound, s)
          \<or> create_order s new_id now order_data current_user
               = (Inl InsufficientInventory, s)"
    if "\<not> (u_role current_user = BUYER
          \<and> (\<exists>product. List.find (\<lambda>p. p_id p = oc_product_id order_data) (products s)
                          = Some product
                \<and> oc_quantity order_data \<le> p_quantity_available product))"
    using that
    by (auto simp: create_order_def Forbidden_def NotFound_def InsufficientInventory_def
        split: option.splits)
  ultimately show ?thesis by blast
qed

theorem create_order_succeeds_only_if_witness:
  "create_order (stock_db 100 False) ''order-1'' 7 (mk_order_data 30) demo_buyer
     = (Inr (mk_order 30), (stock_db 70 False)\<lparr>orders := [mk_order 30]\<rparr>)
   \<and> u_role demo_buyer = BUYER
   \<and> (\<exists>product. List.find (\<lambda>p. p_id p = oc_product_id (mk_order_data 30))
                   (products (stock_db 100 False)) = Some product
         \<and> oc_quantity (mk_order_data 30) \<le> p_quantity_available product)
   \<and> u_role demo_supplier \<noteq> BUYER
   \<and> snd (create_order demo_db ''order-1'' 7 (mk_order_data 30) demo_supplier) = demo_db
   \<and> orders (snd (create_order demo_db ''order-1'' 7 (mk_order_data 30) demo_supplier)) = []"
proof -
  have ran: "create_order (stock_db 100 False) ''order-1'' 7 (mk_order_data 30) demo_buyer
     = (Inr (mk_order 30), (stock_db 70 False)\<lparr>orders := [mk_order 30]\<rparr>)"
    by (simp add: eval_defs)
  have other: "u_role demo_supplier \<noteq> BUYER"
    by (simp add: demo_defs)
  from ran
    create_order_succeeds_only_if [of "stock_db 100 False" "''order-1''" 7 "mk_order_data 30"
      demo_buyer "mk_order 30" "(stock_db 70 False)\<lparr>orders := [mk_order 30]\<rparr>"]
  have pre: "u_role demo_buyer = BUYER
   \<and> (\<exists>product. List.find (\<lambda>p. p_id p = oc_product_id (mk_order_data 30))
                   (products (stock_db 100 False)) = Some product
         \<and> oc_quantity (mk_order_data 30) \<le> p_quantity_available product)"
    by blast
  from other
    create_order_succeeds_only_if [of demo_db "''order-1''" 7 "mk_order_data 30" demo_supplier]
  have "create_order demo_db ''order-1'' 7 (mk_order_data 30) demo_supplier
            = (Inl Forbidden, demo_db)
          \<or> create_order demo_db ''order-1'' 7 (mk_order_data 30) demo_supplier
            = (Inl NotFound, demo_db)
          \<or> create_order demo_db ''order-1'' 7 (mk_order_data 30) demo_supplier
            = (Inl InsufficientInventory, demo_db)"
    by blast
  then
  have kept: "snd (create_order demo_db ''order-1'' 7 (mk_order_data 30) demo_supplier) = demo_db"
    by auto
  then have "orders (snd (create_order demo_db ''order-1'' 7 (mk_order_data 30) demo_supplier))
               = []"
    by (simp add: demo_defs)
  with ran pre other kept show ?thesis by blast
qed

text \<open>
  C3. A successful request adds exactly one record to the orders, the order it returns.
  That order has status \<open>pending\<close>, its \<open>agreed_price_per_ton\<close> is the \<open>price_per_ton\<close>
  of the product read by the request, its quantity is the requested one, and its
  \<open>total_amount\<close> is the agreed price multiplied by the ordered quantity.
\<close>

theorem create_order_order_fields:
  assumes "create_order s new_id now order_data current_user = (Inr order, s')"
  shows "\<exists>product. List.find (\<lambda>p. p_id p = oc_product_id order_data) (products s) = Some product
           \<and> orders s' = orders s @ [order]
           \<and> o_status order = PENDING
           \<and> o_product_id order = oc_product_id order_data
           \<and> o_agreed_price_per_ton order = p_price_per_ton product
           \<and> o_quantity order = oc_quantity order_data
           \<and> o_total_amount order = o_agreed_price_per_ton order * of_int (o_quantity order)"
  using assms by (elim create_order_Inr) simp

theorem create_order_order_fields_witness:
  "\<exists>order s'. create_order demo_db ''order-1'' 7 (mk_order_data 30) demo_buyer = (Inr order, s')
     \<and> orders s' = [order]
     \<and> o_status order = PENDING
     \<and> o_agreed_price_per_ton order = 50
     \<and> o_quantity order = 30
     \<and> o_total_amount order = 1500"
proof -
  from create_order_order_fields [OF demo_order_30]
  obtain product where
    found: "List.find (\<lambda>p. p_id p = oc_product_id (mk_order_data 30)) (products demo_db)
              = Some product"
    and recorded: "orders ((stock_db 70 True)\<lparr>orders := [mk_order 30]\<rparr>)
              = orders demo_db @ [mk_order 30]"
    and pending: "o_status (mk_order 30) = PENDING"
    and price: "o_agreed_price_per_ton (mk_order 30) = p_price_per_ton product"
    and quantity: "o_quantity (mk_order 30) = oc_quantity (mk_order_data 30)"
    and total: "o_total_amount (mk_order 30)
              = o_agreed_price_per_ton (mk_order 30) * of_int (o_quantity (mk_order 30))"
    by blast
  from found have "product = demo_product"
    by (simp add: demo_defs)
  with price have "o_agreed_price_per_ton (mk_order 30) = 50"
    by (simp add: demo_defs)
  moreover from quantity have "o_quantity (mk_order 30) = 30"
    by (simp add: demo_defs)
  moreover from total calculation have "o_total_amount (mk_order 30) = 1500"
    by simp
  moreover from recorded
  have "orders ((stock_db 70 True)\<lparr>orders := [mk_order 30]\<rparr>) = [mk_order 30]"
    by simp
  ultimately show ?thesis using demo_order_30 pending by blast
qed

text \<open>
  C4. After a successful request for \<open>Q\<close> tons of a product whose
  \<open>quantity_available\<close> was \<open>A\<close>, looking the product up again gives the same
  document with \<open>quantity_available = A - Q\<close> and every other field as before.
\<close>

theorem create_order_decrements:
  assumes "create_order s new_id now order_data current_user = (Inr order, s')"
    and "List.find (\<lambda>p. p_id p = oc_product_id order_data) (products s) = Some product"
  shows "List.find (\<lambda>p. p_id p = oc_product_id order_data) (products s')
           = Some (product\<lparr>p_quantity_available :=
                      p_quantity_available product - oc_quantity order_data\<rparr>)"
  using assms
  by (elim create_order_Inr) (simp add: find_products_after_inc inc_quantity_available_def)

theorem create_order_decrements_witness:
  "create_order demo_db ''order-1'' 7 (mk_order_data 30) demo_buyer
     = (Inr (mk_order 30), (stock_db 70 True)\<lparr>orders := [mk_order 30]\<rparr>)
   \<and> List.find (\<lambda>p. p_id p = ''product-1'') (products demo_db) = Some demo_product
   \<and> List.find (\<lambda>p. p_id p = ''product-1'')
        (products ((stock_db 70 True)\<lparr>orders := [mk_order 30]\<rparr>))
       = Some (demo_product\<lparr>p_quantity_available := 70\<rparr>)"
proof -
  have found: "List.find (\<lambda>p. p_id p = oc_product_id (mk_order_data 30)) (products demo_db)
                 = Some demo_product"
    by (simp add: demo_defs)
  from create_order_decrements [OF demo_order_30 found] demo_order_30 found
  show ?thesis by (simp add: demo_defs)
qed

text \<open>
  C6, as stated, fails: with \<open>quantity_available = 0\<close> the check \<open>0 < quantity\<close> is
  false for a request of quantity \<open>0\<close>, which therefore succeeds and is recorded.
\<close>

theorem create_order_sold_out_counterexample:
  "p_quantity_available (mk_product ''product-1'' 0 True) = 0
   \<and> List.find (\<lambda>p. p_id p = oc_product_id (mk_order_data 0)) (products (stock_db 0 True))
       = Some (mk_product ''product-1'' 0 True)
   \<and> create_order (stock_db 0 True) ''order-1'' 7 (mk_order_data 0) demo_buyer
       = (Inr (mk_order 0), (stock_db 0 True)\<lparr>orders := [mk_order 0]\<rparr>)"
  by (simp add: eval_defs)

text \<open>
  C6, amended. While a product's \<open>quantity_available\<close> is \<open>0\<close>, every request against
  it for a positive quantity fails (with \<^const>\<open>InsufficientInventory\<close> for a buyer,
  with \<^const>\<open>Forbidden\<close> for any other role) and leaves the database as it was.
\<close>

theorem create_order_sold_out:
  assumes "List.find (\<lambda>p. p_id p = oc_product_id order_data) (products s) = Some product"
    and "p_quantity_available product = 0"
    and "0 < oc_quantity order_data"
  shows "create_order s new_id now order_data current_user
           = (Inl (if u_role current_user = BUYER then InsufficientInventory else Forbidden), s)"
  using assms by (simp add: create_order_def InsufficientInventory_def Forbidden_def)

theorem create_order_sold_out_witness:
  "List.find (\<lambda>p. p_id p = oc_product_id (mk_order_data 1)) (products (stock_db 0 True))
       = Some (mk_product ''product-1'' 0 True)
   \<and> p_quantity_available (mk_product ''product-1'' 0 True) = 0
   \<and> 0 < oc_quantity (mk_order_data 1)
   \<and> create_order (stock_db 0 True) ''order-1'' 7 (mk_order_data 1) demo_buyer
       = (Inl InsufficientInventory, stock_db 0 True)"
proof -
  have found: "List.find (\<lambda>p. p_id p = oc_product_id (mk_order_data 1)) (products (stock_db 0 True))
       = Some (mk_product ''product-1'' 0 True)"
    by (simp add: demo_defs stock_db_def)
  have zero: "p_quantity_available (mk_product ''product-1'' 0 True) = 0"
    by (simp add: demo_defs)
  have pos: "0 < oc_quantity (mk_order_data 1)"
    by (simp add: demo_defs)
  have buyer: "u_role demo_buyer = BUYER"
    by (simp add: demo_defs)
  from create_order_sold_out [OF found zero pos, of "''order-1''" 7 demo_buyer] found zero pos buyer
  show ?thesis by simp
qed

text \<open>
  C9, as stated, fails twice. For a product whose \<open>quantity_available\<close> is below the
  requested non-positive quantity the request is refused: \<^const>\<open>create_product\<close>
  stores any 64-bit integer, and with \<open>-5\<close> tons available a request for \<open>-1\<close> tons
  raises \<^const>\<open>InsufficientInventory\<close>. And a quantity below \<open>-2^63\<close> passes the
  inventory check but cannot be stored: \<^verbatim>\<open>insert_one\<close> raises, no order is created
  and the stock stays as it was.
\<close>

theorem create_order_nonpositive_counterexample:
  "create_product (demo_db\<lparr>products := []\<rparr>) ''product-1'' 2 (mk_product_data (- 5)) demo_supplier
       = (Inr (mk_product ''product-1'' (- 5) True), stock_db (- 5) True)
   \<and> u_role demo_buyer = BUYER
   \<and> List.find (\<lambda>p. p_id p = oc_product_id (mk_order_data (- 1))) (products (stock_db (- 5) True))
       = Some (mk_product ''product-1'' (- 5) True)
   \<and> oc_quantity (mk_order_data (- 1)) \<le> 0
   \<and> create_order (stock_db (- 5) True) ''order-1'' 7 (mk_order_data (- 1)) demo_buyer
       = (Inl InsufficientInventory, stock_db (- 5) True)
   \<and> List.find (\<lambda>p. p_id p = oc_product_id (mk_order_data (- (2 ^ 63) - 1)))
        (products (stock_db 0 True))
       = Some (mk_product ''product-1'' 0 True)
   \<and> oc_quantity (mk_order_data (- (2 ^ 63) - 1)) \<le> 0
   \<and> create_order (stock_db 0 True) ''order-1'' 7 (mk_order_data (- (2 ^ 63) - 1)) demo_buyer
       = (Inl OverflowError, stock_db 0 True)"
  by (simp add: eval_defs InsufficientInventory_def create_product_def mk_product_data_def)

text \<open>
  C9, amended. The inventory check has no lower bound: for a buyer and an existing
  product whose \<open>quantity_available\<close> is not negative, a request with a quantity of \<open>0\<close>
  or less is never refused with \<^const>\<open>InsufficientInventory\<close> (also when
  \<open>quantity_available\<close> is \<open>0\<close>). When moreover the negated quantity and the resulting
  stock fit the store's 64-bit integers, the request succeeds, an order of that quantity
  is recorded, and the product's \<open>quantity_available\<close> grows by the absolute value of the
  quantity.
\<close>

theorem create_order_nonpositive:
  assumes "u_role current_user = BUYER"
    and "List.find (\<lambda>p. p_id p = oc_product_id order_data) (products s) = Some product"
    and "0 \<le> p_quantity_available product"
    and "oc_quantity order_data \<le> 0"
  shows "fst (create_order s new_id now order_data current_user) \<noteq> Inl InsufficientInventory
         \<and> (int64 (- oc_quantity order_data)
              \<and> int64 (p_quantity_available product - oc_quantity order_data)
            \<longrightarrow> (\<exists>order s'. create_order s new_id now order_data current_user = (Inr order, s')
                   \<and> orders s' = orders s @ [order]
                   \<and> o_quantity order = oc_quantity order_data
                   \<and> List.find (\<lambda>p. p_id p = oc_product_id order_data) (products s')
                       = Some (product\<lparr>p_quantity_available :=
                                  p_quantity_available product + \<bar>oc_quantity order_data\<bar>\<rparr>)))"
proof -
  have passes: "fst (create_order s new_id now order_data current_user)
                  \<noteq> Inl InsufficientInventory"
    using assms by (simp add: create_order_def Let_def InsufficientInventory_def)
  have fits: "int64 (oc_quantity order_data)" if "int64 (- oc_quantity order_data)"
    using that assms(4) by (simp add: int64_def)
  have "\<exists>order s'. create_order s new_id now order_data current_user = (Inr order, s')
           \<and> orders s' = orders s @ [order]
           \<and> o_quantity order = oc_quantity order_data
           \<and> List.find (\<lambda>p. p_id p = oc_product_id order_data) (products s')
               = Some (product\<lparr>p_quantity_available :=
                          p_quantity_available product + \<bar>oc_quantity order_data\<bar>\<rparr>)"
    if "int64 (- oc_quantity order_data)"
      and "int64 (p_quantity_available product - oc_quantity order_data)"
    using assms that fits
    by (simp add: create_order_def Let_def insert_one_def find_products_after_inc
        inc_quantity_available_def)
  with passes show ?thesis by blast
qed

theorem create_order_nonpositive_witness:
  "u_role demo_buyer = BUYER
   \<and> List.find (\<lambda>p. p_id p = oc_product_id (mk_order_data (- 40))) (products (stock_db 0 True))
       = Some (mk_product ''product-1'' 0 True)
   \<and> 0 \<le> p_quantity_available (mk_product ''product-1'' 0 True)
   \<and> oc_quantity (mk_order_data (- 40)) \<le> 0
   \<and> int64 (- oc_quantity (mk_order_data (- 40)))
   \<and> int64 (p_quantity_available (mk_product ''product-1'' 0 True)
        - oc_quantity (mk_order_data (- 40)))
   \<and> fst (create_order (stock_db 0 True) ''order-1'' 7 (mk_order_data (- 40)) demo_buyer)
       \<noteq> Inl InsufficientInventory
   \<and> (\<exists>order s'. create_order (stock_db 0 True) ''order-1'' 7 (mk_order_data (- 40)) demo_buyer
          = (Inr order, s')
        \<and> orders s' = [order]
        \<and> List.find (\<lambda>p. p_id p = ''product-1'') (products s')
            = Some (mk_product ''product-1'' 40 True))"
proof -
  have buyer: "u_role demo_buyer = BUYER"
    by (simp add: demo_defs)
  have found: "List.find (\<lambda>p. p_id p = oc_product_id (mk_order_data (- 40))) (products (stock_db 0 True))
       = Some (mk_product ''product-1'' 0 True)"
    by (simp add: demo_defs stock_db_def)
  have stock: "0 \<le> p_quantity_available (mk_product ''product-1'' 0 True)"
    by (simp add: demo_defs)
  have neg: "oc_quantity (mk_order_data (- 40)) \<le> 0"
    by (simp add: demo_defs)
  have fits: "int64 (- oc_quantity (mk_order_data (- 40)))"
    by (simp add: demo_defs int64_def)
  have room: "int64 (p_quantity_available (mk_product ''product-1'' 0 True)
        - oc_quantity (mk_order_data (- 40)))"
    by (simp add: demo_defs int64_def)
  from create_order_nonpositive [OF buyer found stock neg, of "''order-1''" 7] fits room
  obtain order s' where
    passes: "fst (create_order (stock_db 0 True) ''order-1'' 7 (mk_order_data (- 40)) demo_buyer)
       \<noteq> Inl InsufficientInventory"
    and ran: "create_order (stock_db 0 True) ''order-1'' 7 (mk_order_data (- 40)) demo_buyer
            = (Inr order, s')"
    and recorded: "orders s' = orders (stock_db 0 True) @ [order]"
    and restocked: "List.find (\<lambda>p. p_id p = oc_product_id (mk_order_data (- 40))) (products s')
        = Some ((mk_product ''product-1'' 0 True)\<lparr>p_quantity_available :=
             p_quantity_available (mk_product ''product-1'' 0 True)
               + \<bar>oc_quantity (mk_order_data (- 40))\<bar>\<rparr>)"
    by blast
  from recorded have "orders s' = [order]"
    by (simp add: demo_defs stock_db_def)
  moreover from restocked
  have "List.find (\<lambda>p. p_id p = ''product-1'') (products s')
          = Some (mk_product ''product-1'' 40 True)"
    by (simp add: demo_defs)
  ultimately
  have "\<exists>order s'. create_order (stock_db 0 True) ''order-1'' 7 (mk_order_data (- 40)) demo_buyer
          = (Inr order, s')
        \<and> orders s' = [order]
        \<and> List.find (\<lambda>p. p_id p = ''product-1'') (products s')
            = Some (mk_product ''product-1'' 40 True)"
    using ran by blast
  with buyer found stock neg fits room passes show ?thesis by blast
qed

section \<open>Matching\<close>

text \<open>Each loop lists at most ten counterparts with an anchor.\<close>

lemma buyer_loop_counterparts: "sg \<in> set (buyer_loop s ds) \<Longrightarrow> counterparts sg \<le> 10"
  by (induction ds) (auto simp: matching_products_def length_find_to_list split: if_splits)

lemma supplier_loop_counterparts: "sg \<in> set (supplier_loop s ps) \<Longrightarrow> counterparts sg \<le> 10"
  by (induction ps) (auto simp: matching_demands_def length_find_to_list split: if_splits)

text \<open>
  C7. Whoever calls and whatever the database holds, every entry of the suggestions
  lists at most 10 counterparts: products for a buyer's demand, demands for a supplier's
  product.
\<close>

theorem suggestions_at_most_10:
  "\<forall>sg \<in> set (get_matching_suggestions s current_user). counterparts sg \<le> 10"
  by (auto simp: get_matching_suggestions_def
      dest: buyer_loop_counterparts supplier_loop_counterparts)

theorem suggestions_at_most_10_witness:
  "ProductSuggestion demo_product (map mk_demand (take 10 crowd_ids))
     \<in> set (get_matching_suggestions crowded_db demo_supplier)
   \<and> counterparts (ProductSuggestion demo_product (map mk_demand (take 10 crowd_ids))) \<le> 10"
proof -
  have listed: "ProductSuggestion demo_product (map mk_demand (take 10 crowd_ids))
     \<in> set (get_matching_suggestions crowded_db demo_supplier)"
    by (simp add: crowded_supplier)
  with suggestions_at_most_10 [of crowded_db demo_supplier] show ?thesis
    by blast
qed

text \<open>The two filters are the same predicate read from either side.\<close>

lemma filter_symmetric:
  "d_is_active demand \<Longrightarrow> p_is_active product \<Longrightarrow>
   product_filter demand product \<longleftrightarrow> demand_filter product demand"
  by (auto simp: product_filter_def demand_filter_def)

lemma matched_products_of_buyer_loop:
  "product \<in> set (matched_products_of (buyer_loop s ds) demand)
   \<Longrightarrow> demand \<in> set ds \<and> product \<in> set (matching_products s demand)"
  by (induction ds) (auto split: if_splits)

lemma matched_demands_of_supplier_loop:
  "product \<in> set ps \<Longrightarrow> demand \<in> set (matching_demands s product)
   \<Longrightarrow> demand \<in> set (matched_demands_of (supplier_loop s ps) product)"
  by (induction ps) auto

text \<open>
  C5, as stated, fails: the supplier's query keeps the first 10 matching demands only.
  With eleven demands that match one product, the product is listed for the eleventh
  demand while the eleventh demand is not listed for the product.
\<close>

theorem matching_symmetric_counterexample:
  "p_is_active demo_product \<and> d_is_active (mk_demand ''demand-11'')
   \<and> demo_product \<in> set (matched_products_of
        (get_matching_suggestions crowded_db demo_buyer) (mk_demand ''demand-11''))
   \<and> mk_demand ''demand-11'' \<notin> set (matched_demands_of
        (get_matching_suggestions crowded_db demo_supplier) demo_product)"
  by (simp add: get_matching_suggestions_def crowded_db_def crowd_ids_def demo_defs
      find_to_list_def matching_demands_def demand_filter_def matching_products_def product_filter_def)

text \<open>
  C5, amended. If product \<open>P\<close> is listed for demand \<open>D\<close> in a buyer's suggestions, then
  \<open>D\<close> satisfies the supplier-side filter for \<open>P\<close>, and \<open>D\<close> is listed for \<open>P\<close> in the
  suggestions of the supplier who owns \<open>P\<close> whenever no cap cuts the lists short: at most
  10 demands satisfy the filter for \<open>P\<close> and the supplier has at most 1000 active
  products.
\<close>

theorem matching_symmetric_uncapped:
  assumes buyer: "u_role buyer = BUYER"
    and supplier: "u_role supplier = SUPPLIER"
    and owner: "u_id supplier = p_supplier_id product"
    and listed: "product \<in> set (matched_products_of (get_matching_suggestions s buyer) demand)"
    and few_products:
      "length (filter (\<lambda>p. p_supplier_id p = u_id supplier \<and> p_is_active p = True) (products s))
         \<le> 1000"
    and few_demands: "length (filter (demand_filter product) (demands s)) \<le> 10"
  shows "demand_filter product demand
         \<and> demand \<in> set (matched_demands_of (get_matching_suggestions s supplier) product)"
proof -
  from listed buyer
  have anchor: "demand \<in> set (find_to_list
                   (\<lambda>d. d_buyer_id d = u_id buyer \<and> d_is_active d = True) 1000 (demands s))"
    and match: "product \<in> set (matching_products s demand)"
    by (auto simp: get_matching_suggestions_def dest: matched_products_of_buyer_loop)
  from anchor have d_in: "demand \<in> set (demands s)" and d_active: "d_is_active demand"
    by (auto dest: set_find_to_list)
  from match have p_in: "product \<in> set (products s)" and pf: "product_filter demand product"
    by (auto simp: matching_products_def dest: set_find_to_list)
  from pf have p_active: "p_is_active product"
    by (simp add: product_filter_def)
  from pf d_active p_active have df: "demand_filter product demand"
    by (simp add: filter_symmetric)
  from few_demands d_in df have "demand \<in> set (matching_demands s product)"
    by (simp add: matching_demands_def find_to_list_uncapped)
  moreover from few_products p_in p_active owner
  have "product \<in> set (find_to_list
          (\<lambda>p. p_supplier_id p = u_id supplier \<and> p_is_active p = True) 1000 (products s))"
    by (simp add: find_to_list_uncapped)
  ultimately
  have "demand \<in> set (matched_demands_of (get_matching_suggestions s supplier) product)"
    using supplier by (simp add: get_matching_suggestions_def matched_demands_of_supplier_loop)
  with df show ?thesis by simp
qed

theorem matching_symmetric_uncapped_witness:
  "demo_product \<in> set (matched_products_of (get_matching_suggestions demo_db demo_buyer) demo_demand)
   \<and> demand_filter demo_product demo_demand
   \<and> demo_demand \<in> set (matched_demands_of (get_matching_suggestions demo_db demo_supplier) demo_product)"
proof -
  have buyer: "u_role demo_buyer = BUYER" and supplier: "u_role demo_supplier = SUPPLIER"
    and owner: "u_id demo_supplier = p_supplier_id demo_product"
    by (simp_all add: demo_defs)
  have listed: "demo_product
      \<in> set (matched_products_of (get_matching_suggestions demo_db demo_buyer) demo_demand)"
    by (simp add: demo_buyer_suggestions)
  have few_products:
    "length (filter (\<lambda>p. p_supplier_id p = u_id demo_supplier \<and> p_is_active p = True)
       (products demo_db)) \<le> 1000"
    by (simp add: demo_defs)
  have few_demands: "length (filter (demand_filter demo_product) (demands demo_db)) \<le> 10"
    by (simp add: demo_defs)
  from matching_symmetric_uncapped [OF buyer supplier owner listed few_products few_demands] listed
  show ?thesis by simp
qed

section \<open>Dashboard analytics\<close>

text \<open>
  C8. For a supplier the dashboard holds the number of the supplier's own products, the
  number of the supplier's own orders and the sum of \<open>total_amount\<close> over those orders;
  when the supplier has no order, the order count and the sum are \<open>0\<close>.
\<close>

theorem supplier_dashboard:
  assumes "u_role current_user = SUPPLIER"
  shows "(\<exists>latest. get_dashboard_analytics s current_user = Some (SupplierDashboard
            (length (filter (\<lambda>p. p_supplier_id p = u_id current_user) (products s)))
            (length (filter (\<lambda>x. o_supplier_id x = u_id current_user) (orders s)))
            (sum_list (map o_total_amount
               (filter (\<lambda>x. o_supplier_id x = u_id current_user) (orders s))))
            latest))
         \<and> ((\<forall>x \<in> set (orders s). o_supplier_id x \<noteq> u_id current_user)
            \<longrightarrow> (\<exists>n latest. get_dashboard_analytics s current_user
                     = Some (SupplierDashboard n 0 0 latest)))"
proof -
  have "filter (\<lambda>x. o_supplier_id x = u_id current_user) (orders s) = []"
    if "\<forall>x \<in> set (orders s). o_supplier_id x \<noteq> u_id current_user"
    using that by (simp add: filter_empty_conv)
  then show ?thesis using assms
    by (auto simp: get_dashboard_analytics_def Let_def count_documents_def aggregate_total_sum)
qed

theorem supplier_dashboard_witness:
  "u_role demo_supplier = SUPPLIER
   \<and> (\<exists>latest. get_dashboard_analytics orders_db demo_supplier
         = Some (SupplierDashboard 1 2 2500 latest))
   \<and> orders demo_db = []
   \<and> (\<exists>n latest. get_dashboard_analytics demo_db demo_supplier
         = Some (SupplierDashboard n 0 0 latest))"
proof -
  have role: "u_role demo_supplier = SUPPLIER"
    by (simp add: demo_defs)
  have none: "\<forall>x \<in> set (orders demo_db). o_supplier_id x \<noteq> u_id demo_supplier"
    by (simp add: demo_defs)
  have own_products:
    "length (filter (\<lambda>p. p_supplier_id p = u_id demo_supplier) (products orders_db)) = 1"
    by (simp add: orders_db_def demo_defs)
  have own_orders:
    "length (filter (\<lambda>x. o_supplier_id x = u_id demo_supplier) (orders orders_db)) = 2"
    by (simp add: orders_db_def demo_defs mk_order_def)
  have revenue:
    "sum_list (map o_total_amount
       (filter (\<lambda>x. o_supplier_id x = u_id demo_supplier) (orders orders_db))) = 2500"
    by (simp add: orders_db_def demo_defs mk_order_def)
  from supplier_dashboard [OF role, of orders_db]
  have "\<exists>latest. get_dashboard_analytics orders_db demo_supplier
          = Some (SupplierDashboard 1 2 2500 latest)"
    unfolding own_products own_orders revenue by blast
  moreover from supplier_dashboard [OF role, of demo_db] none
  have "\<exists>n latest. get_dashboard_analytics demo_db demo_supplier
          = Some (SupplierDashboard n 0 0 latest)"
    by blast
  moreover have "orders demo_db = []"
    by (simp add: demo_defs)
  ultimately show ?thesis using role by blast
qed

text \<open>
  C10. For a caller with the logistics role no branch of the dashboard matches: the
  function returns \<^verbatim>\<open>None\<close>, neither a summary nor an error.
\<close>

theorem logistics_dashboard_none:
  assumes "u_role current_user = LOGISTICS"
  shows "get_dashboard_analytics s current_user = None"
  using assms by (simp add: get_dashboard_analytics_def)

theorem logistics_dashboard_none_witness:
  "u_role demo_logistics = LOGISTICS \<and> get_dashboard_analytics demo_db demo_logistics = None"
proof -
  have role: "u_role demo_logistics = LOGISTICS"
    by (simp add: demo_defs)
  from logistics_dashboard_none [OF role] role show ?thesis by simp
qed

end
